theory Spec2Isabelle
  imports Main
begin

section \<open>Configuration (main.go, lines 17-39)\<close>

text \<open>
  The \<^verbatim>\<open>Config\<close> struct and the package-level value \<^verbatim>\<open>config\<close>. Durations are
  \<^verbatim>\<open>time.Duration\<close> values, that is nanoseconds; sizes are \<^verbatim>\<open>int64\<close> byte counts.
\<close>

record Config =
  WhisperURL :: string
  ChatCompletionsURL :: string
  TranscriptionFile :: string
  DiarizedFile :: string
  TranscriptionTimeout :: int
  DiarizationTimeout :: int
  MaxResponseBodySize :: int
  MaxAudioFileSize :: int
  HTTPTimeout :: int

definition config :: Config where
  "config = \<lparr>
     WhisperURL = ''https://api.openai.com/v1/audio/transcriptions'',
     ChatCompletionsURL = ''https://api.openai.com/v1/chat/completions'',
     TranscriptionFile = ''transcription.txt'',
     DiarizedFile = ''diarized.txt'',
     TranscriptionTimeout = 5 * (60 * 1000000000),
     DiarizationTimeout = 2 * (60 * 1000000000),
     MaxResponseBodySize = 10 * 1024 * 1024,
     MaxAudioFileSize = 25 * 1024 * 1024,
     HTTPTimeout = 30 * 1000000000 \<rparr>"

section \<open>JSON values, requests and responses\<close>

text \<open>
  A JSON document as \<^verbatim>\<open>encoding/json\<close> sees it once the bytes are scanned. An object
  keeps its members in document order, duplicates included, because the decoder
  processes them one after the other. A number keeps its text.
\<close>

datatype json =
    JNull
  | JBool bool
  | JNumber string
  | JString string
  | JArray "json list"
  | JObject "(string \<times> json) list"

text \<open>
  The scanner of \<^verbatim>\<open>encoding/json\<close> (bytes to the first JSON value of the stream, or the
  text of a syntax error) is library code; every function below takes it as the
  parameter \<open>scan\<close>.
\<close>

type_synonym scanner = "string \<Rightarrow> string + json"

text \<open>
  A multipart form as \<^verbatim>\<open>mime/multipart\<close> builds it: a file part (field name, file name,
  content) or a plain field (name, value). The random boundary is left out.
\<close>

datatype part = FormFile string string string | FormField string string

datatype payload = Multipart "part list" | JsonPayload json

record request =
  reqMethod :: string
  reqURL :: string
  reqHeaders :: "(string \<times> string) list"
  reqBody :: payload

text \<open>
  What \<^verbatim>\<open>httpClient.Do\<close> gives back: a transport error (timeouts and an expired
  context included) with its text, or a response with its status code and body bytes.
\<close>

datatype response = TransportError string | Response int string

section \<open>The world outside the program\<close>

datatype event =
    EvStat string
  | EvReadFile string
  | EvWriteFile string string
  | EvOpen string
  | EvCopy string
  | EvHttp request
  | EvStdout string
  | EvStderr string

text \<open>
  The file system maps a path to the bytes of the regular file there; paths are
  compared as strings. \<open>noRead\<close> and \<open>noWrite\<close> are the paths whose opening for reading
  or writing is refused, \<open>readFault\<close> the paths whose content cannot be read once
  opened. \<open>http\<close> is the answer of the network to a request. \<open>trace\<close> records every
  call that leaves the program, in order.
\<close>

record world =
  files :: "string \<rightharpoonup> string"
  noRead :: "string \<Rightarrow> bool"
  noWrite :: "string \<Rightarrow> bool"
  readFault :: "string \<Rightarrow> bool"
  http :: "request \<Rightarrow> response"
  trace :: "event list"

definition emit :: "world \<Rightarrow> event \<Rightarrow> world" where
  "emit w e = w\<lparr>trace := trace w @ [e]\<rparr>"

text \<open>\<^verbatim>\<open>os.Stat\<close>: the size of the file, or the error text of a missing path.\<close>

definition osStat :: "world \<Rightarrow> string \<Rightarrow> (string + int) \<times> world" where
  "osStat w p =
     (case files w p of
        None \<Rightarrow> Inl (''stat '' @ p @ '': no such file or directory'')
      | Some d \<Rightarrow> Inr (int (length d)),
      emit w (EvStat p))"

text \<open>\<^verbatim>\<open>os.ReadFile\<close>: the whole content, as bytes.\<close>

definition osReadFile :: "world \<Rightarrow> string \<Rightarrow> (string + string) \<times> world" where
  "osReadFile w p =
     (case files w p of
        None \<Rightarrow> Inl (''open '' @ p @ '': no such file or directory'')
      | Some d \<Rightarrow>
          if noRead w p then Inl (''open '' @ p @ '': permission denied'')
          else if readFault w p then Inl (''read '' @ p @ '': input/output error'')
          else Inr d,
      emit w (EvReadFile p))"

text \<open>
  \<^verbatim>\<open>os.WriteFile\<close>: creates or truncates the file and writes the bytes. A refused
  opening leaves the file system as it was.
\<close>

definition osWriteFile :: "world \<Rightarrow> string \<Rightarrow> string \<Rightarrow> string option \<times> world" where
  "osWriteFile w p d =
     (if noWrite w p
      then (Some (''open '' @ p @ '': permission denied''), emit w (EvWriteFile p d))
      else (None, emit (w\<lparr>files := (files w)(p \<mapsto> d)\<rparr>) (EvWriteFile p d)))"

text \<open>\<^verbatim>\<open>os.Open\<close>: succeeds on a readable file that is there.\<close>

definition osOpen :: "world \<Rightarrow> string \<Rightarrow> string option \<times> world" where
  "osOpen w p =
     (case files w p of
        None \<Rightarrow> Some (''open '' @ p @ '': no such file or directory'')
      | Some d \<Rightarrow>
          if noRead w p then Some (''open '' @ p @ '': permission denied'') else None,
      emit w (EvOpen p))"

text \<open>\<^verbatim>\<open>io.Copy\<close> from the opened file into the form part: the content, or a read error.\<close>

definition ioCopy :: "world \<Rightarrow> string \<Rightarrow> (string + string) \<times> world" where
  "ioCopy w p =
     (case files w p of
        None \<Rightarrow> Inl (''read '' @ p @ '': file already closed'')
      | Some d \<Rightarrow>
          if readFault w p then Inl (''read '' @ p @ '': input/output error'') else Inr d,
      emit w (EvCopy p))"

text \<open>\<^verbatim>\<open>httpClient.Do\<close>.\<close>

definition httpDo :: "world \<Rightarrow> request \<Rightarrow> response \<times> world" where
  "httpDo w req = (http w req, emit w (EvHttp req))"

section \<open>Formatting\<close>

text \<open>The verb \<^verbatim>\<open>%d\<close> of \<^verbatim>\<open>fmt\<close>: decimal digits, with a minus sign below zero.\<close>

function showNat :: "nat \<Rightarrow> string" where
  "showNat n =
     (if n < 10 then [''0123456789'' ! n]
      else showNat (n div 10) @ [''0123456789'' ! (n mod 10)])"
  by pat_completeness auto
termination
  by (relation "measure id") auto

declare showNat.simps [simp del]

definition showInt :: "int \<Rightarrow> string" where
  "showInt i = (if i < 0 then ''-'' @ showNat (nat (- i)) else showNat (nat i))"

text \<open>
  \<^verbatim>\<open>filepath.Base\<close> with the separator \<^verbatim>\<open>/\<close>: the last element of the path, trailing
  separators dropped; \<^verbatim>\<open>.\<close> for the empty path and \<^verbatim>\<open>/\<close> for a path of separators only.
\<close>

definition Base :: "string \<Rightarrow> string" where
  "Base p =
     (if p = [] then ''.''
      else
        let q = rev (dropWhile (\<lambda>c. c = CHR ''/'') (rev p));
            r = rev (takeWhile (\<lambda>c. c \<noteq> CHR ''/'') (rev q))
        in if r = [] then ''/'' else r)"

section \<open>Decoding JSON into the response structs\<close>

text \<open>
  \<^verbatim>\<open>encoding/json\<close> matches an object key with a struct field when the two are equal
  or equal after case folding. Folding maps an ASCII letter to its capital and the
  two runes that fold to an ASCII letter, U+017F (bytes C5 BF) and U+212A (bytes
  E2 84 AA), to \<^verbatim>\<open>S\<close> and \<^verbatim>\<open>K\<close>; any other rune folds to a rune outside ASCII, which no
  field name of this program contains, so its bytes are kept.
\<close>

definition upperASCII :: "char \<Rightarrow> char" where
  "upperASCII c =
     (case map_of (zip ''abcdefghijklmnopqrstuvwxyz'' ''ABCDEFGHIJKLMNOPQRSTUVWXYZ'') c of
        Some u \<Rightarrow> u
      | None \<Rightarrow> c)"

function foldName :: "string \<Rightarrow> string" where
  "foldName [] = []"
| "foldName (c # cs) =
     (if c = CHR 0xC5 \<and> take 1 cs = [CHR 0xBF] then CHR ''S'' # foldName (drop 1 cs)
      else if c = CHR 0xE2 \<and> take 2 cs = [CHR 0x84, CHR 0xAA]
        then CHR ''K'' # foldName (drop 2 cs)
      else upperASCII c # foldName cs)"
  by pat_completeness auto
termination
  by (relation "measure length") auto

definition fieldMatch :: "string \<Rightarrow> string \<Rightarrow> bool" where
  "fieldMatch name key = (foldName key = foldName name)"

datatype decodeError = SyntaxError string | UnmarshalTypeError string

text \<open>The word \<^verbatim>\<open>encoding/json\<close> uses for the kind of a value in its type errors.\<close>

fun kindOf :: "json \<Rightarrow> string" where
  "kindOf JNull = ''null''"
| "kindOf (JBool b) = ''bool''"
| "kindOf (JNumber n) = ''number''"
| "kindOf (JString s) = ''string''"
| "kindOf (JArray vs) = ''array''"
| "kindOf (JObject kvs) = ''object''"

text \<open>
  Into a Go \<^verbatim>\<open>string\<close>: a JSON string is stored, \<^verbatim>\<open>null\<close> leaves the target as it is,
  any other value is a type error.
\<close>

fun decodeString :: "json \<Rightarrow> string \<Rightarrow> decodeError + string" where
  "decodeString (JString s) cur = Inr s"
| "decodeString JNull cur = Inr cur"
| "decodeString v cur = Inl (UnmarshalTypeError (kindOf v))"

text \<open>
  The members of an object, decoded in order into a struct with the one field
  \<open>name\<close>: a member whose key matches is decoded into the field (a later one
  overwrites an earlier one), any other member is skipped. The library goes on after
  a type error and reports the earliest one; the callers only return the error, so
  the model stops at it.
\<close>

fun decodeField ::
  "string \<Rightarrow> (json \<Rightarrow> 'a \<Rightarrow> decodeError + 'a) \<Rightarrow> (string \<times> json) list \<Rightarrow> 'a \<Rightarrow> decodeError + 'a"
where
  "decodeField name dec [] cur = Inr cur"
| "decodeField name dec ((k, v) # kvs) cur =
     (if fieldMatch name k
      then (case dec v cur of Inl e \<Rightarrow> Inl e | Inr x \<Rightarrow> decodeField name dec kvs x)
      else decodeField name dec kvs cur)"

text \<open>
  Into a Go struct: an object is decoded member by member, \<^verbatim>\<open>null\<close> leaves the struct
  as it is, any other value is a type error.
\<close>

definition decodeStruct ::
  "string \<Rightarrow> (json \<Rightarrow> 'a \<Rightarrow> decodeError + 'a) \<Rightarrow> json \<Rightarrow> 'a \<Rightarrow> decodeError + 'a"
where
  "decodeStruct name dec v cur =
     (case v of
        JNull \<Rightarrow> Inr cur
      | JObject kvs \<Rightarrow> decodeField name dec kvs cur
      | _ \<Rightarrow> Inl (UnmarshalTypeError (kindOf v)))"

text \<open>The struct of transcribeAudio (lines 172-174): one field \<^verbatim>\<open>Text string\<close> with the JSON key \<^verbatim>\<open>text\<close>.\<close>

record transcriptionResponse =
  Text :: string

definition decodeText ::
  "json \<Rightarrow> transcriptionResponse \<Rightarrow> decodeError + transcriptionResponse" where
  "decodeText v r =
     (case decodeString v (Text r) of Inl e \<Rightarrow> Inl e | Inr s \<Rightarrow> Inr (r\<lparr>Text := s\<rparr>))"

definition decodeTranscription :: "json \<Rightarrow> decodeError + transcriptionResponse" where
  "decodeTranscription v = decodeStruct ''text'' decodeText v \<lparr>Text = []\<rparr>"

text \<open>The struct of diarizeTranscript (lines 226-232).\<close>

record message =
  Content :: string

record choice =
  Message :: message

record chatResponse =
  Choices :: "choice list"

definition decodeContent :: "json \<Rightarrow> message \<Rightarrow> decodeError + message" where
  "decodeContent v m =
     (case decodeString v (Content m) of Inl e \<Rightarrow> Inl e | Inr s \<Rightarrow> Inr (m\<lparr>Content := s\<rparr>))"

definition decodeMessage :: "json \<Rightarrow> choice \<Rightarrow> decodeError + choice" where
  "decodeMessage v c =
     (case decodeStruct ''content'' decodeContent v (Message c) of
        Inl e \<Rightarrow> Inl e
      | Inr m \<Rightarrow> Inr (c\<lparr>Message := m\<rparr>))"

text \<open>
  Into a Go slice: the length is reset to zero and each element of the array is
  decoded into a zero value and appended; \<^verbatim>\<open>null\<close> sets the slice to nil.
\<close>

fun decodeElems :: "json list \<Rightarrow> decodeError + choice list" where
  "decodeElems [] = Inr []"
| "decodeElems (v # vs) =
     (case decodeStruct ''message'' decodeMessage v \<lparr>Message = \<lparr>Content = []\<rparr>\<rparr> of
        Inl e \<Rightarrow> Inl e
      | Inr c \<Rightarrow> (case decodeElems vs of Inl e \<Rightarrow> Inl e | Inr cs \<Rightarrow> Inr (c # cs)))"

definition decodeChoices :: "json \<Rightarrow> chatResponse \<Rightarrow> decodeError + chatResponse" where
  "decodeChoices v r =
     (case v of
        JNull \<Rightarrow> Inr (r\<lparr>Choices := []\<rparr>)
      | JArray vs \<Rightarrow>
          (case decodeElems vs of Inl e \<Rightarrow> Inl e | Inr cs \<Rightarrow> Inr (r\<lparr>Choices := cs\<rparr>))
      | _ \<Rightarrow> Inl (UnmarshalTypeError (kindOf v)))"

definition decodeChat :: "json \<Rightarrow> decodeError + chatResponse" where
  "decodeChat v = decodeStruct ''choices'' decodeChoices v \<lparr>Choices = []\<rparr>"

section \<open>Errors\<close>

text \<open>
  One constructor for each \<^verbatim>\<open>fmt.Errorf\<close> of the two clients that can be reached, with
  the values the format string prints. The forms are built in a memory buffer, the
  request has a constant method and URL and the payload holds strings and a float
  only, so the errors of \<^verbatim>\<open>CreateFormFile\<close>, \<^verbatim>\<open>WriteField\<close>, \<^verbatim>\<open>Close\<close>,
  \<^verbatim>\<open>NewRequestWithContext\<close> and \<^verbatim>\<open>json.Marshal\<close> do not occur. Closing the file and
  the response body only logs.
\<close>

datatype error =
    StatFailed string
  | AudioTooLarge int int
  | OpenFailed string
  | CopyFailed string
  | SendFailed string
  | Non200 int string
  | DecodeFailed decodeError
  | ChatSendFailed string
  | ChatNon200 int string
  | ChatDecodeFailed decodeError
  | NoChoices

text \<open>
  The text of a decoding error; the library's type error also names the Go type,
  which is left out here.
\<close>

fun decodeErrorText :: "decodeError \<Rightarrow> string" where
  "decodeErrorText (SyntaxError t) = t"
| "decodeErrorText (UnmarshalTypeError k) = ''json: cannot unmarshal '' @ k @ '' into Go value''"

fun errorMessage :: "error \<Rightarrow> string" where
  "errorMessage (StatFailed e) = ''failed to get file info: '' @ e"
| "errorMessage (AudioTooLarge sz mx) =
     ''audio file too large: '' @ showInt sz @ '' bytes (max: '' @ showInt mx @ '' bytes)''"
| "errorMessage (OpenFailed e) = ''failed to open audio file: '' @ e"
| "errorMessage (CopyFailed e) = ''failed to copy file content: '' @ e"
| "errorMessage (SendFailed e) = ''failed to send request: '' @ e"
| "errorMessage (Non200 code body) =
     ''non-200 response: '' @ showInt code @ '', body: '' @ body"
| "errorMessage (DecodeFailed e) = ''failed to decode response: '' @ decodeErrorText e"
| "errorMessage (ChatSendFailed e) = ''failed to send chat completion request: '' @ e"
| "errorMessage (ChatNon200 code body) =
     ''non-200 response from chat completion: '' @ showInt code @ '', body: '' @ body"
| "errorMessage (ChatDecodeFailed e) =
     ''failed to decode chat completion response: '' @ decodeErrorText e"
| "errorMessage NoChoices = ''no choices returned from chat completion''"

section \<open>transcribeAudio (main.go, lines 112-179)\<close>

definition transcriptionRequest :: "string \<Rightarrow> string \<Rightarrow> string \<Rightarrow> request" where
  "transcriptionRequest apiKey audioPath content = \<lparr>
     reqMethod = ''POST'',
     reqURL = WhisperURL config,
     reqHeaders = [(''Authorization'', ''Bearer '' @ apiKey),
                   (''Content-Type'', ''multipart/form-data'')],
     reqBody = Multipart [FormFile ''file'' (Base audioPath) content,
                          FormField ''model'' ''whisper-1''] \<rparr>"

definition transcribeAudio ::
  "scanner \<Rightarrow> world \<Rightarrow> string \<Rightarrow> string \<Rightarrow> (error + string) \<times> world" where
  "transcribeAudio scan w apiKey audioPath =
     (case osStat w audioPath of
        (Inl e, w1) \<Rightarrow> (Inl (StatFailed e), w1)
      | (Inr sz, w1) \<Rightarrow>
          if sz > MaxAudioFileSize config
          then (Inl (AudioTooLarge sz (MaxAudioFileSize config)), w1)
          else
            (case osOpen w1 audioPath of
               (Some e, w2) \<Rightarrow> (Inl (OpenFailed e), w2)
             | (None, w2) \<Rightarrow>
                 (case ioCopy w2 audioPath of
                    (Inl e, w3) \<Rightarrow> (Inl (CopyFailed e), w3)
                  | (Inr content, w3) \<Rightarrow>
                      (case httpDo w3 (transcriptionRequest apiKey audioPath content) of
                         (TransportError e, w4) \<Rightarrow> (Inl (SendFailed e), w4)
                       | (Response code body, w4) \<Rightarrow>
                           if code \<noteq> 200
                           then (Inl (Non200 code
                                   (take (nat (MaxResponseBodySize config)) body)), w4)
                           else
                             (case scan body of
                                Inl e \<Rightarrow> (Inl (DecodeFailed (SyntaxError e)), w4)
                              | Inr v \<Rightarrow>
                                  (case decodeTranscription v of
                                     Inl e \<Rightarrow> (Inl (DecodeFailed e), w4)
                                   | Inr res \<Rightarrow> (Inr (Text res), w4)))))))"

section \<open>diarizeTranscript (main.go, lines 183-241)\<close>

text \<open>The prompt of lines 184-190: \<^verbatim>\<open>%d\<close> is the speaker count, \<^verbatim>\<open>%s\<close> the transcript.\<close>

definition promptHead :: string where
  "promptHead =
     ''You are an expert in speaker diarization.'' @ [CHR 0x0A] @
     ''Given the following transcript of a podcast and knowing there are ''"

definition promptMiddle :: string where
  "promptMiddle =
     '' speakers, please insert clear breaks and label each segment with the appropriate speaker (e.g., '' @
     [CHR 0x22] @ ''Speaker 1:'' @ [CHR 0x22] @ '', '' @
     [CHR 0x22] @ ''Speaker 2:'' @ [CHR 0x22] @ '', etc.).'' @
     [CHR 0x0A, CHR 0x0A] @ ''Transcript:'' @ [CHR 0x0A]"

definition promptTail :: string where
  "promptTail = [CHR 0x0A, CHR 0x0A] @ ''Return the diarized transcript.''"

definition diarizePrompt :: "int \<Rightarrow> string \<Rightarrow> string" where
  "diarizePrompt numSpeakers transcript =
     promptHead @ showInt numSpeakers @ promptMiddle @ transcript @ promptTail"

text \<open>
  The payload of lines 192-197 as \<^verbatim>\<open>json.Marshal\<close> writes a map, keys in sorted order.
\<close>

definition diarizationRequest :: "string \<Rightarrow> string \<Rightarrow> request" where
  "diarizationRequest apiKey prompt = \<lparr>
     reqMethod = ''POST'',
     reqURL = ChatCompletionsURL config,
     reqHeaders = [(''Authorization'', ''Bearer '' @ apiKey),
                   (''Content-Type'', ''application/json'')],
     reqBody = JsonPayload (JObject
       [(''messages'', JArray [JObject [(''content'', JString prompt),
                                        (''role'', JString ''user'')]]),
        (''model'', JString ''gpt-4o''),
        (''temperature'', JNumber ''0.3'')]) \<rparr>"

definition diarizeTranscript ::
  "scanner \<Rightarrow> world \<Rightarrow> string \<Rightarrow> string \<Rightarrow> int \<Rightarrow> (error + string) \<times> world" where
  "diarizeTranscript scan w apiKey transcript numSpeakers =
     (case httpDo w (diarizationRequest apiKey (diarizePrompt numSpeakers transcript)) of
        (TransportError e, w1) \<Rightarrow> (Inl (ChatSendFailed e), w1)
      | (Response code body, w1) \<Rightarrow>
          if code \<noteq> 200
          then (Inl (ChatNon200 code (take (nat (MaxResponseBodySize config)) body)), w1)
          else
            (case scan body of
               Inl e \<Rightarrow> (Inl (ChatDecodeFailed (SyntaxError e)), w1)
             | Inr v \<Rightarrow>
                 (case decodeChat v of
                    Inl e \<Rightarrow> (Inl (ChatDecodeFailed e), w1)
                  | Inr res \<Rightarrow>
                      if length (Choices res) = 0 then (Inl NoChoices, w1)
                      else (Inr (Content (Message (Choices res ! 0))), w1))))"

section \<open>main (main.go, lines 45-109)\<close>

text \<open>
  The arguments are the values of the flags \<^verbatim>\<open>-audio\<close> and \<^verbatim>\<open>-speakers\<close> after
  \<^verbatim>\<open>flag.Parse\<close> and of the environment variable \<^verbatim>\<open>OPENAI_API_KEY\<close>. The speaker
  count ranges over all integers, which covers every value of a Go \<^verbatim>\<open>int\<close>. The
  result is the exit status with the world the process leaves behind.

  \<open>cacheStage\<close> is lines 63-91: the transcript from the cache file or from a fresh
  transcription that is then saved, or the exit status of a failure.
\<close>

definition cacheStage ::
  "scanner \<Rightarrow> world \<Rightarrow> string \<Rightarrow> string \<Rightarrow> (int + string) \<times> world" where
  "cacheStage scan w apiKey audioPath =
     (case osStat w (TranscriptionFile config) of
        (Inr sz, w1) \<Rightarrow>
          (case osReadFile w1 (TranscriptionFile config) of
             (Inl e, w2) \<Rightarrow>
               (Inl 1, emit w2 (EvStderr (''Error reading '' @ TranscriptionFile config @
                                  '': '' @ e @ [CHR 0x0A])))
           | (Inr d, w2) \<Rightarrow>
               (Inr d, emit w2 (EvStdout (''Loaded transcription from '' @
                                  TranscriptionFile config @ [CHR 0x0A]))))
      | (Inl e0, w1) \<Rightarrow>
          (case transcribeAudio scan w1 apiKey audioPath of
             (Inl err, w2) \<Rightarrow>
               (Inl 1, emit w2 (EvStderr (''Error transcribing audio: '' @
                                  errorMessage err @ [CHR 0x0A])))
           | (Inr transcript, w2) \<Rightarrow>
               (case osWriteFile w2 (TranscriptionFile config) transcript of
                  (Some e, w3) \<Rightarrow>
                    (Inl 1, emit w3 (EvStderr (''Error writing transcription to file: '' @
                                       e @ [CHR 0x0A])))
                | (None, w3) \<Rightarrow>
                    (Inr transcript, emit w3 (EvStdout (''Transcription saved to '' @
                                       TranscriptionFile config @ [CHR 0x0A]))))))"

text \<open>\<open>diarizeStage\<close> is lines 93-109.\<close>

definition diarizeStage ::
  "scanner \<Rightarrow> world \<Rightarrow> string \<Rightarrow> string \<Rightarrow> int \<Rightarrow> int \<times> world" where
  "diarizeStage scan w apiKey transcript numSpeakers =
     (case diarizeTranscript scan w apiKey transcript numSpeakers of
        (Inl err, w1) \<Rightarrow>
          (1, emit w1 (EvStderr (''Error diarizing transcript: '' @
                         errorMessage err @ [CHR 0x0A])))
      | (Inr diarizedTranscript, w1) \<Rightarrow>
          (case osWriteFile w1 (DiarizedFile config)
                  (''=== Diarized Transcript ==='' @ [CHR 0x0A] @ diarizedTranscript @
                   [CHR 0x0A]) of
             (Some e, w2) \<Rightarrow>
               (1, emit w2 (EvStderr (''Error writing diarized transcript to file: '' @
                              e @ [CHR 0x0A])))
           | (None, w2) \<Rightarrow>
               (0, emit w2 (EvStdout (''Diarized transcript saved to '' @
                              DiarizedFile config @ [CHR 0x0A])))))"

definition main :: "scanner \<Rightarrow> world \<Rightarrow> string \<Rightarrow> int \<Rightarrow> string \<Rightarrow> int \<times> world" where
  "main scan w audioPath numSpeakers apiKey =
     (if audioPath = []
      then (1, emit w (EvStderr (''Please provide the path to the audio file using -audio'' @
                         [CHR 0x0A])))
      else if apiKey = []
      then (1, emit w (EvStderr (''Please set the OPENAI_API_KEY environment variable'' @
                         [CHR 0x0A])))
      else
        (case cacheStage scan w apiKey audioPath of
           (Inl status, w1) \<Rightarrow> (status, w1)
         | (Inr transcript, w1) \<Rightarrow> diarizeStage scan w1 apiKey transcript numSpeakers))"

text \<open>
  A sequence of runs in the same working directory. Each run has its own arguments
  and meets its own network; the files are what the run before left.
\<close>

record invocation =
  audio :: string
  speakers :: int
  key :: string
  network :: "request \<Rightarrow> response"

fun runs :: "scanner \<Rightarrow> world \<Rightarrow> invocation list \<Rightarrow> world" where
  "runs scan w [] = w"
| "runs scan w (i # is) =
     runs scan (snd (main scan (w\<lparr>http := network i\<rparr>) (audio i) (speakers i) (key i))) is"

text \<open>The requests sent to the transcription endpoint, as the trace shows them.\<close>

fun isTranscriptionCall :: "event \<Rightarrow> bool" where
  "isTranscriptionCall (EvHttp r) = (reqURL r = WhisperURL config)"
| "isTranscriptionCall e = False"

section \<open>Observations on traces and decoded objects\<close>

text \<open>The events a run has added to the trace, and the HTTP requests among events.\<close>

definition eventsSince :: "world \<Rightarrow> world \<Rightarrow> event list" where
  "eventsSince w w' = drop (length (trace w)) (trace w')"

fun httpRequests :: "event list \<Rightarrow> request list" where
  "httpRequests [] = []"
| "httpRequests (EvHttp r # es) = r # httpRequests es"
| "httpRequests (e # es) = httpRequests es"


text \<open>Reading a decimal numeral back, to check \<open>showNat\<close> against.\<close>

fun digitValue :: "char \<Rightarrow> nat" where
  "digitValue c =
     (case map_of (zip ''0123456789'' [0, 1, 2, 3, 4, 5, 6, 7, 8, 9]) c of
        Some v \<Rightarrow> v
      | None \<Rightarrow> 0)"

definition readNat :: "string \<Rightarrow> nat" where
  "readNat s = foldl (\<lambda>a c. 10 * a + digitValue c) 0 s"

section \<open>Example worlds\<close>

text \<open>
  Response bodies, a scanner that knows the JSON reading of exactly these bodies, and
  worlds with one small audio file whose two endpoints answer as given.
\<close>

definition quoted :: "string \<Rightarrow> string" where
  "quoted s = [CHR 0x22] @ s @ [CHR 0x22]"

definition bodyHello :: string where
  "bodyHello = ''{'' @ quoted ''text'' @ '':'' @ quoted ''hello world'' @ ''}''"

definition bodyExtra :: string where
  "bodyExtra = ''{'' @ quoted ''language'' @ '':'' @ quoted ''en'' @ '','' @
               quoted ''text'' @ '':'' @ quoted ''hello world'' @ ''}''"

definition bodyNoText :: string where
  "bodyNoText = ''{'' @ quoted ''language'' @ '':'' @ quoted ''en'' @ ''}''"

definition bodyEmptyText :: string where
  "bodyEmptyText = ''{'' @ quoted ''text'' @ '':'' @ quoted [] @ ''}''"

definition bodyCapital :: string where
  "bodyCapital = ''{'' @ quoted ''Text'' @ '':'' @ quoted ''x'' @ ''}''"

definition bodyArray :: string where
  "bodyArray = ''[]''"

definition bodyTruncated :: string where
  "bodyTruncated = ''{''"

definition bodySpeaker :: string where
  "bodySpeaker = ''{'' @ quoted ''choices'' @ '':[{'' @ quoted ''message'' @ '':{'' @
                 quoted ''content'' @ '':'' @ quoted ''Speaker 1: hello world'' @ ''}}]}''"

definition bodyNoChoices :: string where
  "bodyNoChoices = ''{'' @ quoted ''choices'' @ '':[]}''"

definition demoScan :: scanner where
  "demoScan b =
     (case map_of
        [(bodyHello, JObject [(''text'', JString ''hello world'')]),
         (bodyExtra, JObject [(''language'', JString ''en''),
                              (''text'', JString ''hello world'')]),
         (bodyNoText, JObject [(''language'', JString ''en'')]),
         (bodyEmptyText, JObject [(''text'', JString [])]),
         (bodyCapital, JObject [(''Text'', JString ''x'')]),
         (bodyArray, JArray []),
         (bodySpeaker, JObject [(''choices'', JArray [JObject [(''message'',
                          JObject [(''content'', JString ''Speaker 1: hello world'')])]])]),
         (bodyNoChoices, JObject [(''choices'', JArray [])])] b of
        Some v \<Rightarrow> Inr v
      | None \<Rightarrow> Inl ''unexpected EOF'')"

definition demoNet :: "response \<Rightarrow> response \<Rightarrow> request \<Rightarrow> response" where
  "demoNet t d r = (if reqURL r = WhisperURL config then t else d)"

definition demoWorld :: "(string \<rightharpoonup> string) \<Rightarrow> (request \<Rightarrow> response) \<Rightarrow> world" where
  "demoWorld fs net =
     \<lparr> files = fs, noRead = (\<lambda>p. False), noWrite = (\<lambda>p. False),
       readFault = (\<lambda>p. False), http = net, trace = [] \<rparr>"

definition audioOnly :: "string \<rightharpoonup> string" where
  "audioOnly = [''talk.mp3'' \<mapsto> ''RIFF'']"

definition answering :: "response \<Rightarrow> response \<Rightarrow> world" where
  "answering t d = demoWorld audioOnly (demoNet t d)"

definition freshWorld :: world where
  "freshWorld = answering (Response 200 bodyHello) (Response 200 bodySpeaker)"

definition cachedWorld :: world where
  "cachedWorld = demoWorld (audioOnly(''transcription.txt'' \<mapsto> ''cached text''))
                   (demoNet (Response 200 bodyHello) (Response 200 bodySpeaker))"

definition limitedWorld :: world where
  "limitedWorld = answering (Response 200 bodyHello) (Response 429 ''rate limited'')"

definition bigWorld :: world where
  "bigWorld = demoWorld [''big.mp3'' \<mapsto> replicate 31457280 (CHR ''a'')]
                (demoNet (Response 200 bodyHello) (Response 200 bodySpeaker))"

definition again :: invocation where
  "again = \<lparr> audio = ''talk.mp3'', speakers = 2, key = ''sk-test'',
             network = demoNet (Response 200 bodyHello) (Response 200 bodySpeaker) \<rparr>"

section \<open>Basic facts\<close>

lemmas demo_defs =
  demoWorld_def demoNet_def demoScan_def audioOnly_def answering_def quoted_def
  bodyHello_def bodyExtra_def bodyNoText_def bodyEmptyText_def bodyCapital_def
  bodyArray_def bodyTruncated_def bodySpeaker_def bodyNoChoices_def

lemmas run_defs =
  main_def cacheStage_def diarizeStage_def transcribeAudio_def diarizeTranscript_def
  osStat_def osReadFile_def osWriteFile_def osOpen_def ioCopy_def httpDo_def emit_def
  transcriptionRequest_def diarizationRequest_def

lemmas decode_defs =
  decodeTranscription_def decodeChat_def decodeStruct_def decodeText_def decodeChoices_def
  decodeMessage_def decodeContent_def fieldMatch_def upperASCII_def

lemma files_emit [simp]: "files (emit w e) = files w"
  and noRead_emit [simp]: "noRead (emit w e) = noRead w"
  and noWrite_emit [simp]: "noWrite (emit w e) = noWrite w"
  and readFault_emit [simp]: "readFault (emit w e) = readFault w"
  and http_emit [simp]: "http (emit w e) = http w"
  and trace_emit [simp]: "trace (emit w e) = trace w @ [e]"
  by (simp_all add: emit_def)

lemma max_audio [simp]: "MaxAudioFileSize config = 26214400"
  and max_body [simp]: "MaxResponseBodySize config = 10485760"
  by (simp_all add: config_def)

lemma file_names [simp]:
  "TranscriptionFile config = ''transcription.txt''"
  "DiarizedFile config = ''diarized.txt''"
  by (simp_all add: config_def)

lemma urls [simp]:
  "WhisperURL config = ''https://api.openai.com/v1/audio/transcriptions''"
  "ChatCompletionsURL config = ''https://api.openai.com/v1/chat/completions''"
  by (simp_all add: config_def)

subsection \<open>Decimal formatting\<close>

lemma digit_roundtrip: "n < 10 \<Longrightarrow> digitValue (''0123456789'' ! n) = n"
proof -
  assume "n < 10"
  then have "n \<in> {0, 1, 2, 3, 4, 5, 6, 7, 8, 9}" by auto
  then show ?thesis by auto
qed

lemma readNat_showNat: "readNat (showNat n) = n"
proof (induction n rule: showNat.induct)
  case (1 n)
  show ?case
  proof (cases "n < 10")
    case True
    then show ?thesis
      using digit_roundtrip [of n] by (subst showNat.simps) (simp add: readNat_def)
  next
    case False
    have "n mod 10 < 10" by simp
    then have d: "digitValue (''0123456789'' ! (n mod 10)) = n mod 10"
      by (rule digit_roundtrip)
    from False 1 have ih: "readNat (showNat (n div 10)) = n div 10" by simp
    have "readNat (showNat n) = 10 * readNat (showNat (n div 10)) + n mod 10"
      using False d by (subst showNat.simps) (simp add: readNat_def)
    with ih show ?thesis by simp
  qed
qed

subsection \<open>The two clients, branch by branch\<close>

lemma transcribeAudio_not_ok:
  assumes "files w p = Some d" and "int (length d) \<le> MaxAudioFileSize config"
    and "\<not> noRead w p" and "\<not> readFault w p"
    and "http w (transcriptionRequest k p d) = Response code body" and "code \<noteq> 200"
  shows "transcribeAudio scan w k p =
           (Inl (Non200 code (take 10485760 body)),
            w\<lparr>trace := trace w @ [EvStat p, EvOpen p, EvCopy p,
                                  EvHttp (transcriptionRequest k p d)]\<rparr>)"
  using assms
  by (simp add: transcribeAudio_def osStat_def osOpen_def ioCopy_def httpDo_def emit_def)


lemma transcribeAudio_frame:
  "\<exists>evs. snd (transcribeAudio scan w k a) = w\<lparr>trace := trace w @ evs\<rparr>
         \<and> (\<forall>e \<in> set evs. \<forall>p d. e \<noteq> EvWriteFile p d)"
proof -
  have "snd (transcribeAudio scan w k a) \<in>
          {w\<lparr>trace := trace w @ [EvStat a]\<rparr>,
           w\<lparr>trace := trace w @ [EvStat a, EvOpen a]\<rparr>,
           w\<lparr>trace := trace w @ [EvStat a, EvOpen a, EvCopy a]\<rparr>} \<union>
          range (\<lambda>r. w\<lparr>trace := trace w @ [EvStat a, EvOpen a, EvCopy a, EvHttp r]\<rparr>)"
    by (simp add: transcribeAudio_def osStat_def osOpen_def ioCopy_def httpDo_def emit_def
        split: option.splits sum.splits response.splits)
  then consider "snd (transcribeAudio scan w k a) = w\<lparr>trace := trace w @ [EvStat a]\<rparr>"
    | "snd (transcribeAudio scan w k a) = w\<lparr>trace := trace w @ [EvStat a, EvOpen a]\<rparr>"
    | "snd (transcribeAudio scan w k a) =
         w\<lparr>trace := trace w @ [EvStat a, EvOpen a, EvCopy a]\<rparr>"
    | r where "snd (transcribeAudio scan w k a) =
                 w\<lparr>trace := trace w @ [EvStat a, EvOpen a, EvCopy a, EvHttp r]\<rparr>"
    by auto
  then show ?thesis
  proof cases
    case 1
    then show ?thesis by (intro exI [of _ "[EvStat a]"]) simp
  next
    case 2
    then show ?thesis by (intro exI [of _ "[EvStat a, EvOpen a]"]) simp
  next
    case 3
    then show ?thesis by (intro exI [of _ "[EvStat a, EvOpen a, EvCopy a]"]) simp
  next
    case 4
    then show ?thesis by (intro exI [of _ "[EvStat a, EvOpen a, EvCopy a, EvHttp r]"]) simp
  qed
qed

lemma diarizeTranscript_not_ok:
  assumes "http w (diarizationRequest k (diarizePrompt n t)) = Response code body"
    and "code \<noteq> 200"
  shows "diarizeTranscript scan w k t n =
           (Inl (ChatNon200 code (take 10485760 body)),
            emit w (EvHttp (diarizationRequest k (diarizePrompt n t))))"
  using assms by (simp add: diarizeTranscript_def httpDo_def)

lemma diarizeTranscript_world:
  "snd (diarizeTranscript scan w k t n) =
     emit w (EvHttp (diarizationRequest k (diarizePrompt n t)))"
  by (simp add: diarizeTranscript_def httpDo_def split: response.splits sum.splits)

lemma diarizeTranscript_ok:
  assumes "http w (diarizationRequest k (diarizePrompt n t)) = Response 200 body"
    and "scan body = Inr v" and "decodeChat v = Inr res"
  shows "fst (diarizeTranscript scan w k t n) =
           (if Choices res = [] then Inl NoChoices
            else Inr (Content (Message (hd (Choices res)))))"
  using assms by (simp add: diarizeTranscript_def httpDo_def hd_conv_nth)

subsection \<open>Decoding the members of an object\<close>









subsection \<open>The stages of main\<close>

lemma diarizeStage_unfold:
  "diarizeStage scan w k t n =
     (case fst (diarizeTranscript scan w k t n) of
        Inl err \<Rightarrow>
          (1, w\<lparr>trace := trace w @
                  [EvHttp (diarizationRequest k (diarizePrompt n t)),
                   EvStderr (''Error diarizing transcript: '' @ errorMessage err @ [CHR 0x0A])]\<rparr>)
      | Inr d \<Rightarrow>
          if noWrite w ''diarized.txt''
          then (1, w\<lparr>trace := trace w @
                  [EvHttp (diarizationRequest k (diarizePrompt n t)),
                   EvWriteFile ''diarized.txt''
                     (''=== Diarized Transcript ==='' @ [CHR 0x0A] @ d @ [CHR 0x0A]),
                   EvStderr (''Error writing diarized transcript to file: '' @
                     ''open diarized.txt: permission denied'' @ [CHR 0x0A])]\<rparr>)
          else (0, w\<lparr>files := (files w)(''diarized.txt'' \<mapsto>
                       ''=== Diarized Transcript ==='' @ [CHR 0x0A] @ d @ [CHR 0x0A]),
                     trace := trace w @
                  [EvHttp (diarizationRequest k (diarizePrompt n t)),
                   EvWriteFile ''diarized.txt''
                     (''=== Diarized Transcript ==='' @ [CHR 0x0A] @ d @ [CHR 0x0A]),
                   EvStdout (''Diarized transcript saved to diarized.txt'' @ [CHR 0x0A])]\<rparr>))"
proof (cases "diarizeTranscript scan w k t n")
  case (Pair r w1)
  then have w1: "w1 = emit w (EvHttp (diarizationRequest k (diarizePrompt n t)))"
    using diarizeTranscript_world [of scan w k t n] by simp
  show ?thesis
    by (cases r) (simp_all add: diarizeStage_def Pair w1 osWriteFile_def emit_def)
qed

lemma diarizeStage_effects:
  "\<exists>evs. trace (snd (diarizeStage scan w k t n)) =
           trace w @ EvHttp (diarizationRequest k (diarizePrompt n t)) # evs
        \<and> httpRequests evs = []
        \<and> (\<forall>p. p \<noteq> ''diarized.txt'' \<longrightarrow> files (snd (diarizeStage scan w k t n)) p = files w p)"
  by (cases "fst (diarizeTranscript scan w k t n)") (simp_all add: diarizeStage_unfold)

lemma filter_no_http: "httpRequests evs = [] \<Longrightarrow> filter isTranscriptionCall evs = []"
proof (induction evs)
  case Nil
  then show ?case by simp
next
  case (Cons e evs)
  then show ?case by (cases e) simp_all
qed

lemma cacheStage_hit:
  assumes "files w ''transcription.txt'' = Some d"
  shows "cacheStage scan w k a =
     (if noRead w ''transcription.txt''
      then (Inl 1, w\<lparr>trace := trace w @
              [EvStat ''transcription.txt'', EvReadFile ''transcription.txt'',
               EvStderr (''Error reading transcription.txt: '' @
                 ''open transcription.txt: permission denied'' @ [CHR 0x0A])]\<rparr>)
      else if readFault w ''transcription.txt''
      then (Inl 1, w\<lparr>trace := trace w @
              [EvStat ''transcription.txt'', EvReadFile ''transcription.txt'',
               EvStderr (''Error reading transcription.txt: '' @
                 ''read transcription.txt: input/output error'' @ [CHR 0x0A])]\<rparr>)
      else (Inr d, w\<lparr>trace := trace w @
              [EvStat ''transcription.txt'', EvReadFile ''transcription.txt'',
               EvStdout (''Loaded transcription from transcription.txt'' @ [CHR 0x0A])]\<rparr>))"
  using assms by (simp add: cacheStage_def osStat_def osReadFile_def emit_def)

lemma cacheStage_frame:
  assumes "cacheStage scan w k a = (Inr t, w1)"
  shows "files w1 ''transcription.txt'' = Some t
       \<and> (\<forall>p. p \<noteq> ''transcription.txt'' \<longrightarrow> files w1 p = files w p)
       \<and> (\<exists>evs. trace w1 = trace w @ evs
              \<and> (\<forall>e \<in> set evs. \<forall>d. e \<noteq> EvWriteFile ''diarized.txt'' d))"
proof (cases "files w ''transcription.txt''")
  case (Some d)
  with assms show ?thesis
    by (auto simp: cacheStage_hit split: if_splits)
next
  case None
  let ?w0 = "emit w (EvStat ''transcription.txt'')"
  obtain evs where evs: "snd (transcribeAudio scan ?w0 k a) =
      ?w0\<lparr>trace := trace w @ [EvStat ''transcription.txt''] @ evs\<rparr>"
    and nw: "\<forall>e \<in> set evs. \<forall>p d. e \<noteq> EvWriteFile p d"
    using transcribeAudio_frame [of scan ?w0 k a] by auto
  obtain r w2 where tr: "transcribeAudio scan ?w0 k a = (r, w2)"
    by (cases "transcribeAudio scan ?w0 k a")
  with evs have w2: "w2 = w\<lparr>trace := trace w @ [EvStat ''transcription.txt''] @ evs\<rparr>"
    by (simp add: emit_def)
  from assms None tr have
    w1: "w1 = emit (emit (w2\<lparr>files := (files w2)(''transcription.txt'' \<mapsto> t)\<rparr>)
                 (EvWriteFile ''transcription.txt'' t))
                 (EvStdout (''Transcription saved to transcription.txt'' @ [CHR 0x0A]))"
    by (auto simp: cacheStage_def osStat_def osWriteFile_def split: sum.splits if_splits)
  show ?thesis
    using nw by (auto simp: w1 w2)
qed

lemma main_unfold:
  assumes "a \<noteq> []" and "k \<noteq> []"
  shows "main scan w a n k =
     (case cacheStage scan w k a of
        (Inl status, w1) \<Rightarrow> (status, w1)
      | (Inr transcript, w1) \<Rightarrow> diarizeStage scan w1 k transcript n)"
  using assms by (simp add: main_def)

lemma main_cache_hit:
  assumes "files w ''transcription.txt'' = Some d" and "a \<noteq> []" and "k \<noteq> []"
  shows "main scan w a n k =
     (if noRead w ''transcription.txt''
      then (1, w\<lparr>trace := trace w @
              [EvStat ''transcription.txt'', EvReadFile ''transcription.txt'',
               EvStderr (''Error reading transcription.txt: '' @
                 ''open transcription.txt: permission denied'' @ [CHR 0x0A])]\<rparr>)
      else if readFault w ''transcription.txt''
      then (1, w\<lparr>trace := trace w @
              [EvStat ''transcription.txt'', EvReadFile ''transcription.txt'',
               EvStderr (''Error reading transcription.txt: '' @
                 ''read transcription.txt: input/output error'' @ [CHR 0x0A])]\<rparr>)
      else diarizeStage scan
             (w\<lparr>trace := trace w @
              [EvStat ''transcription.txt'', EvReadFile ''transcription.txt'',
               EvStdout (''Loaded transcription from transcription.txt'' @ [CHR 0x0A])]\<rparr>)
             k d n)"
  using assms by (simp add: main_unfold cacheStage_hit)

lemma main_keeps_cache:
  assumes "files w ''transcription.txt'' = Some d"
  shows "files (snd (main scan w a n k)) ''transcription.txt'' = Some d
       \<and> filter isTranscriptionCall (trace (snd (main scan w a n k))) =
           filter isTranscriptionCall (trace w)"
proof (cases "a = [] \<or> k = []")
  case True
  then show ?thesis using assms by (auto simp: main_def)
next
  case False
  let ?w0 = "w\<lparr>trace := trace w @
              [EvStat ''transcription.txt'', EvReadFile ''transcription.txt'',
               EvStdout (''Loaded transcription from transcription.txt'' @ [CHR 0x0A])]\<rparr>"
  obtain evs where
    t: "trace (snd (diarizeStage scan ?w0 k d n)) =
          trace ?w0 @ EvHttp (diarizationRequest k (diarizePrompt n d)) # evs"
    and h: "httpRequests evs = []"
    and f: "\<forall>p. p \<noteq> ''diarized.txt'' \<longrightarrow>
              files (snd (diarizeStage scan ?w0 k d n)) p = files ?w0 p"
    using diarizeStage_effects [of scan ?w0 k d n] by blast
  from False assms show ?thesis
    using t f filter_no_http [OF h] by (simp add: main_cache_hit diarizationRequest_def)
qed

lemma runs_keep_cache:
  "files w ''transcription.txt'' = Some d \<Longrightarrow>
   files (runs scan w is) ''transcription.txt'' = Some d
   \<and> filter isTranscriptionCall (trace (runs scan w is)) =
       filter isTranscriptionCall (trace w)"
proof (induction "is" arbitrary: w)
  case Nil
  then show ?case by simp
next
  case (Cons i "is")
  let ?w = "w\<lparr>http := network i\<rparr>"
  have f: "files ?w ''transcription.txt'' = Some d"
    using Cons.prems by simp
  note k = main_keeps_cache [OF f, of scan "audio i" "speakers i" "key i"]
  from Cons.IH [of "snd (main scan ?w (audio i) (speakers i) (key i))"] k
  show ?case by simp
qed

section \<open>The transcription client\<close>

text \<open>
  C2. When the size that \<^verbatim>\<open>os.Stat\<close> reports for the audio file is above the maximum
  of 25 MiB (26214400 bytes), transcribeAudio returns the size-limit error with the
  actual and the maximum size, and its message prints both. The only call that has
  left the program by then is the \<^verbatim>\<open>os.Stat\<close> itself: the file has not been opened,
  no request was built and nothing was sent.
\<close>

theorem transcribeAudio_size_limit:
  assumes "files w audioPath = Some d" and "int (length d) > MaxAudioFileSize config"
  shows "transcribeAudio scan w apiKey audioPath =
           (Inl (AudioTooLarge (int (length d)) 26214400), emit w (EvStat audioPath))
         \<and> errorMessage (AudioTooLarge (int (length d)) 26214400) =
           ''audio file too large: '' @ showInt (int (length d)) @
           '' bytes (max: 26214400 bytes)''"
proof -
  have "showInt 26214400 = ''26214400''"
    by (simp add: showInt_def showNat.simps)
  then show ?thesis
    using assms by (simp add: transcribeAudio_def osStat_def)
qed

theorem transcribeAudio_size_limit_witness:
  "files bigWorld ''big.mp3'' = Some (replicate 31457280 (CHR ''a''))
   \<and> int (length (replicate 31457280 (CHR ''a''))) > MaxAudioFileSize config
   \<and> transcribeAudio demoScan bigWorld ''sk-test'' ''big.mp3'' =
       (Inl (AudioTooLarge 31457280 26214400), emit bigWorld (EvStat ''big.mp3''))
   \<and> errorMessage (AudioTooLarge 31457280 26214400) =
       ''audio file too large: 31457280 bytes (max: 26214400 bytes)''"
proof -
  have f: "files bigWorld ''big.mp3'' = Some (replicate 31457280 (CHR ''a''))"
    by (simp add: bigWorld_def demoWorld_def)
  have g: "int (length (replicate 31457280 (CHR ''a''))) > MaxAudioFileSize config"
    by simp
  have s: "showInt 31457280 = ''31457280''"
    by (simp add: showInt_def showNat.simps)
  show ?thesis
    using transcribeAudio_size_limit [OF f g, of demoScan "''sk-test''"] f s by simp
qed




section \<open>The diarization client\<close>



text \<open>
  C8. For every integer speaker count, zero and negative ones included,
  diarizeTranscript sends exactly one request, the one whose single user message is
  the prompt; the prompt is the fixed text with the count in decimal (a minus sign and
  the digits of the absolute value below zero) and the whole transcript put in
  unchanged; and the call succeeds whenever the answer has status 200 and decodes to a
  non-empty list of choices. No branch looks at the count.
\<close>

theorem diarizeTranscript_any_speaker_count:
  "snd (diarizeTranscript scan w k t n) =
     emit w (EvHttp (diarizationRequest k (diarizePrompt n t)))
   \<and> diarizePrompt n t = promptHead @ showInt n @ promptMiddle @ t @ promptTail
   \<and> reqBody (diarizationRequest k (diarizePrompt n t)) =
       JsonPayload (JObject
         [(''messages'', JArray [JObject [(''content'', JString (diarizePrompt n t)),
                                          (''role'', JString ''user'')]]),
          (''model'', JString ''gpt-4o''),
          (''temperature'', JNumber ''0.3'')])
   \<and> showInt n = (if n < 0 then ''-'' @ showNat (nat \<bar>n\<bar>) else showNat (nat \<bar>n\<bar>))
   \<and> readNat (showNat (nat \<bar>n\<bar>)) = nat \<bar>n\<bar>
   \<and> (\<forall>body v res.
        http w (diarizationRequest k (diarizePrompt n t)) = Response 200 body
        \<and> scan body = Inr v \<and> decodeChat v = Inr res \<and> Choices res \<noteq> []
        \<longrightarrow> fst (diarizeTranscript scan w k t n) = Inr (Content (Message (hd (Choices res)))))"
proof -
  have "n < 0 \<Longrightarrow> nat (- n) = nat \<bar>n\<bar>" and "\<not> n < 0 \<Longrightarrow> nat n = nat \<bar>n\<bar>"
    by simp_all
  then have s: "showInt n = (if n < 0 then ''-'' @ showNat (nat \<bar>n\<bar>) else showNat (nat \<bar>n\<bar>))"
    by (simp add: showInt_def)
  show ?thesis
    using diarizeTranscript_ok [where scan = scan and w = w and k = k and n = n and t = t] s
    by (simp add: diarizeTranscript_world diarizePrompt_def diarizationRequest_def
        readNat_showNat)
qed

theorem diarizeTranscript_any_speaker_count_witness:
  "http freshWorld (diarizationRequest ''sk-test'' (diarizePrompt (- 3) ''hello world'')) =
     Response 200 bodySpeaker
   \<and> fst (diarizeTranscript demoScan freshWorld ''sk-test'' ''hello world'' (- 3)) =
       Inr ''Speaker 1: hello world''
   \<and> fst (diarizeTranscript demoScan freshWorld ''sk-test'' ''hello world'' 0) =
       Inr ''Speaker 1: hello world''
   \<and> diarizePrompt (- 3) ''hello world'' =
       promptHead @ ''-3'' @ promptMiddle @ ''hello world'' @ promptTail
   \<and> diarizePrompt 0 ''hello world'' =
       promptHead @ ''0'' @ promptMiddle @ ''hello world'' @ promptTail"
proof -
  have h: "\<And>n. http freshWorld (diarizationRequest ''sk-test'' (diarizePrompt n ''hello world'')) =
              Response 200 bodySpeaker"
    by (simp add: freshWorld_def answering_def demoWorld_def demoNet_def diarizationRequest_def)
  have s: "demoScan bodySpeaker =
       Inr (JObject [(''choices'', JArray [JObject [(''message'',
              JObject [(''content'', JString ''Speaker 1: hello world'')])]])])"
    by (simp add: demo_defs)
  have d: "decodeChat (JObject [(''choices'', JArray [JObject [(''message'',
              JObject [(''content'', JString ''Speaker 1: hello world'')])]])]) =
       Inr \<lparr>Choices = [\<lparr>Message = \<lparr>Content = ''Speaker 1: hello world''\<rparr>\<rparr>]\<rparr>"
    by (simp add: decode_defs)
  have n: "showNat 3 = ''3''" "showNat 0 = ''0''"
    by (simp_all add: showNat.simps)
  note T = diarizeTranscript_any_speaker_count [of demoScan freshWorld "''sk-test''" "''hello world''"]
  have 1: "fst (diarizeTranscript demoScan freshWorld ''sk-test'' ''hello world'' (- 3)) =
       Inr ''Speaker 1: hello world''"
    using T [of "- 3"] h [of "- 3"] s d by simp
  have 2: "fst (diarizeTranscript demoScan freshWorld ''sk-test'' ''hello world'' 0) =
       Inr ''Speaker 1: hello world''"
    using T [of 0] h [of 0] s d by simp
  have 3: "diarizePrompt (- 3) ''hello world'' =
       promptHead @ ''-3'' @ promptMiddle @ ''hello world'' @ promptTail"
    using T [of "- 3"] n by simp
  have 4: "diarizePrompt 0 ''hello world'' =
       promptHead @ ''0'' @ promptMiddle @ ''hello world'' @ promptTail"
    using T [of 0] n by simp
  from h [of "- 3"] 1 2 3 4 show ?thesis by simp
qed

section \<open>Status codes\<close>

text \<open>
  C3. For every response whose status is outside 200..299, transcribeAudio (once the
  audio file has been read and the request sent) and diarizeTranscript fail with the
  error that carries the status code as received and the start of the response body,
  cut at 10 MiB (10485760 bytes), so that the excerpt is never longer than
  \<^verbatim>\<open>MaxResponseBodySize\<close>.
\<close>

theorem upstream_error_non_2xx:
  assumes "code < 200 \<or> 300 \<le> code"
  shows "(files w p = Some d \<and> int (length d) \<le> MaxAudioFileSize config
            \<and> \<not> noRead w p \<and> \<not> readFault w p
            \<and> http w (transcriptionRequest k p d) = Response code body
          \<longrightarrow> (\<exists>excerpt. fst (transcribeAudio scan w k p) = Inl (Non200 code excerpt)
                 \<and> excerpt = take 10485760 body
                 \<and> int (length excerpt) \<le> MaxResponseBodySize config))
       \<and> (http w (diarizationRequest k (diarizePrompt n t)) = Response code body
          \<longrightarrow> (\<exists>excerpt. fst (diarizeTranscript scan w k t n) = Inl (ChatNon200 code excerpt)
                 \<and> excerpt = take 10485760 body
                 \<and> int (length excerpt) \<le> MaxResponseBodySize config))"
proof -
  from assms have c: "code \<noteq> 200" by auto
  show ?thesis
    using transcribeAudio_not_ok [where code = code, OF _ _ _ _ _ c]
      diarizeTranscript_not_ok [where code = code, OF _ c]
    by (auto simp: min_def)
qed

theorem upstream_error_non_2xx_witness:
  "300 \<le> (429::int)
   \<and> http limitedWorld (diarizationRequest ''sk-test'' (diarizePrompt 2 ''hello world'')) =
       Response 429 ''rate limited''
   \<and> fst (diarizeTranscript demoScan limitedWorld ''sk-test'' ''hello world'' 2) =
       Inl (ChatNon200 429 ''rate limited'')
   \<and> errorMessage (ChatNon200 429 ''rate limited'') =
       ''non-200 response from chat completion: 429, body: rate limited''
   \<and> 300 \<le> (500::int)
   \<and> files (answering (Response 500 ''server error'') (Response 200 bodySpeaker)) ''talk.mp3'' =
       Some ''RIFF''
   \<and> http (answering (Response 500 ''server error'') (Response 200 bodySpeaker))
       (transcriptionRequest ''sk-test'' ''talk.mp3'' ''RIFF'') = Response 500 ''server error''
   \<and> fst (transcribeAudio demoScan (answering (Response 500 ''server error'') (Response 200 bodySpeaker))
            ''sk-test'' ''talk.mp3'') = Inl (Non200 500 ''server error'')"
proof -
  have c: "(429::int) < 200 \<or> 300 \<le> (429::int)" "(500::int) < 200 \<or> 300 \<le> (500::int)"
    by simp_all
  have h: "http limitedWorld (diarizationRequest ''sk-test'' (diarizePrompt 2 ''hello world'')) =
       Response 429 ''rate limited''"
    by (simp add: limitedWorld_def answering_def demoWorld_def demoNet_def diarizationRequest_def)
  have f: "files (answering (Response 500 ''server error'') (Response 200 bodySpeaker)) ''talk.mp3'' =
       Some ''RIFF''"
    "\<not> noRead (answering (Response 500 ''server error'') (Response 200 bodySpeaker)) ''talk.mp3''"
    "\<not> readFault (answering (Response 500 ''server error'') (Response 200 bodySpeaker)) ''talk.mp3''"
    by (simp_all add: answering_def demoWorld_def audioOnly_def)
  have g: "http (answering (Response 500 ''server error'') (Response 200 bodySpeaker))
       (transcriptionRequest ''sk-test'' ''talk.mp3'' ''RIFF'') = Response 500 ''server error''"
    by (simp add: answering_def demoWorld_def demoNet_def transcriptionRequest_def)
  have m: "errorMessage (ChatNon200 429 ''rate limited'') =
       ''non-200 response from chat completion: 429, body: rate limited''"
    by (simp add: showInt_def showNat.simps)
  show ?thesis
    using upstream_error_non_2xx [OF c(1), of limitedWorld "''talk.mp3''" "''RIFF''"
        "''sk-test''" "''rate limited''" demoScan 2 "''hello world''"]
      upstream_error_non_2xx [OF c(2),
        of "answering (Response 500 ''server error'') (Response 200 bodySpeaker)" "''talk.mp3''"
        "''RIFF''" "''sk-test''" "''server error''" demoScan 2 "''hello world''"]
      h f g m
    by simp
qed

text \<open>
  C9. Status 200 is the only success: for every response with another status code,
  201 and 204 included, both clients return the upstream error with the code and the
  body excerpt, and the result is the same whatever the JSON scanner would make of the
  body, that is, the body is never decoded as a success payload.
\<close>

theorem only_200_is_success:
  assumes "code \<noteq> 200"
  shows "(files w p = Some d \<and> int (length d) \<le> MaxAudioFileSize config
            \<and> \<not> noRead w p \<and> \<not> readFault w p
            \<and> http w (transcriptionRequest k p d) = Response code body
          \<longrightarrow> fst (transcribeAudio scan w k p) = Inl (Non200 code (take 10485760 body))
              \<and> (\<forall>scan'. transcribeAudio scan' w k p = transcribeAudio scan w k p))
       \<and> (http w (diarizationRequest k (diarizePrompt n t)) = Response code body
          \<longrightarrow> fst (diarizeTranscript scan w k t n) = Inl (ChatNon200 code (take 10485760 body))
              \<and> (\<forall>scan'. diarizeTranscript scan' w k t n = diarizeTranscript scan w k t n))"
  using transcribeAudio_not_ok [where code = code, OF _ _ _ _ _ assms]
    diarizeTranscript_not_ok [where code = code, OF _ assms]
  by simp

theorem only_200_is_success_witness:
  "(201::int) \<noteq> 200
   \<and> files (answering (Response 201 bodyHello) (Response 204 [])) ''talk.mp3'' = Some ''RIFF''
   \<and> http (answering (Response 201 bodyHello) (Response 204 []))
       (transcriptionRequest ''sk-test'' ''talk.mp3'' ''RIFF'') = Response 201 bodyHello
   \<and> fst (transcribeAudio demoScan (answering (Response 201 bodyHello) (Response 204 []))
            ''sk-test'' ''talk.mp3'') = Inl (Non200 201 bodyHello)
   \<and> (204::int) \<noteq> 200
   \<and> http (answering (Response 201 bodyHello) (Response 204 []))
       (diarizationRequest ''sk-test'' (diarizePrompt 2 ''hello world'')) = Response 204 []
   \<and> fst (diarizeTranscript demoScan (answering (Response 201 bodyHello) (Response 204 []))
            ''sk-test'' ''hello world'' 2) = Inl (ChatNon200 204 [])"
proof -
  let ?w = "answering (Response 201 bodyHello) (Response 204 [])"
  have c: "(201::int) \<noteq> 200" "(204::int) \<noteq> 200"
    by simp_all
  have f: "files ?w ''talk.mp3'' = Some ''RIFF''"
    "\<not> noRead ?w ''talk.mp3''" "\<not> readFault ?w ''talk.mp3''"
    by (simp_all add: answering_def demoWorld_def audioOnly_def)
  have g: "http ?w (transcriptionRequest ''sk-test'' ''talk.mp3'' ''RIFF'') =
             Response 201 bodyHello"
    by (simp add: answering_def demoWorld_def demoNet_def transcriptionRequest_def)
  have h: "http ?w (diarizationRequest ''sk-test'' (diarizePrompt 2 ''hello world'')) =
             Response 204 []"
    by (simp add: answering_def demoWorld_def demoNet_def diarizationRequest_def)
  have l: "take 10485760 bodyHello = bodyHello"
    by (simp add: bodyHello_def quoted_def)
  have 1: "fst (transcribeAudio demoScan ?w ''sk-test'' ''talk.mp3'') =
             Inl (Non200 201 (take 10485760 bodyHello))"
    using only_200_is_success [OF c(1), of ?w "''talk.mp3''" "''RIFF''" "''sk-test''"
        bodyHello demoScan 2 "''hello world''"] f g
    by simp
  have 2: "fst (diarizeTranscript demoScan ?w ''sk-test'' ''hello world'' 2) =
             Inl (ChatNon200 204 (take 10485760 []))"
    using only_200_is_success [OF c(2), of ?w "''talk.mp3''" "''RIFF''" "''sk-test''"
        "[]" demoScan 2 "''hello world''"] h
    by blast
  from 1 2 f g h l show ?thesis by simp
qed

section \<open>The orchestrator\<close>

text \<open>
  C1. When \<^verbatim>\<open>transcription.txt\<close> exists (\<^verbatim>\<open>os.Stat\<close> succeeds), a run sends no request to
  the transcription endpoint and does not depend on the audio path at all: the only
  HTTP request of the run is the diarization request whose prompt holds the bytes of
  the cache file (no request at all when the file cannot be read and the run stops),
  and with a readable cache file the run is the diarization stage applied to exactly
  these bytes.
\<close>

theorem cache_hit_skips_transcription:
  assumes "files w (TranscriptionFile config) = Some d" and "audioPath \<noteq> []"
    and "apiKey \<noteq> []"
  shows "filter isTranscriptionCall (trace (snd (main scan w audioPath n apiKey))) =
           filter isTranscriptionCall (trace w)
       \<and> httpRequests (eventsSince w (snd (main scan w audioPath n apiKey))) =
           (if noRead w (TranscriptionFile config) \<or> readFault w (TranscriptionFile config)
            then [] else [diarizationRequest apiKey (diarizePrompt n d)])
       \<and> (\<forall>audioPath'. audioPath' \<noteq> [] \<longrightarrow>
             main scan w audioPath' n apiKey = main scan w audioPath n apiKey)
       \<and> (\<not> noRead w (TranscriptionFile config) \<and> \<not> readFault w (TranscriptionFile config)
            \<longrightarrow> main scan w audioPath n apiKey =
                diarizeStage scan
                  (w\<lparr>trace := trace w @
                     [EvStat (TranscriptionFile config), EvReadFile (TranscriptionFile config),
                      EvStdout (''Loaded transcription from transcription.txt'' @
                                [CHR 0x0A])]\<rparr>)
                  apiKey d n)"
proof -
  from assms(1) have f: "files w ''transcription.txt'' = Some d" by simp
  note hit = main_cache_hit [OF f _ assms(3), of _ scan n]
  let ?w0 = "w\<lparr>trace := trace w @
              [EvStat ''transcription.txt'', EvReadFile ''transcription.txt'',
               EvStdout (''Loaded transcription from transcription.txt'' @ [CHR 0x0A])]\<rparr>"
  obtain evs where
    t: "trace (snd (diarizeStage scan ?w0 apiKey d n)) =
          trace ?w0 @ EvHttp (diarizationRequest apiKey (diarizePrompt n d)) # evs"
    and h: "httpRequests evs = []"
    using diarizeStage_effects [of scan ?w0 apiKey d n] by blast
  have 1: "filter isTranscriptionCall (trace (snd (main scan w audioPath n apiKey))) =
           filter isTranscriptionCall (trace w)"
    using main_keeps_cache [OF f] by simp
  have 2: "httpRequests (eventsSince w (snd (main scan w audioPath n apiKey))) =
           (if noRead w (TranscriptionFile config) \<or> readFault w (TranscriptionFile config)
            then [] else [diarizationRequest apiKey (diarizePrompt n d)])"
    using t h by (simp add: hit [OF assms(2)] eventsSince_def)
  have 3: "\<And>audioPath'. audioPath' \<noteq> [] \<Longrightarrow>
             main scan w audioPath' n apiKey = main scan w audioPath n apiKey"
    by (simp add: hit assms(2))
  have 4: "\<not> noRead w (TranscriptionFile config) \<and> \<not> readFault w (TranscriptionFile config)
            \<longrightarrow> main scan w audioPath n apiKey = diarizeStage scan
                  (w\<lparr>trace := trace w @
                     [EvStat (TranscriptionFile config), EvReadFile (TranscriptionFile config),
                      EvStdout (''Loaded transcription from transcription.txt'' @
                                [CHR 0x0A])]\<rparr>)
                  apiKey d n"
    by (simp add: hit [OF assms(2)])
  from 1 2 3 4 show ?thesis by blast
qed

theorem cache_hit_skips_transcription_witness:
  "files cachedWorld (TranscriptionFile config) = Some ''cached text''
   \<and> filter isTranscriptionCall
       (trace (snd (main demoScan cachedWorld ''talk.mp3'' 2 ''sk-test''))) = []
   \<and> httpRequests (eventsSince cachedWorld
       (snd (main demoScan cachedWorld ''talk.mp3'' 2 ''sk-test''))) =
       [diarizationRequest ''sk-test'' (diarizePrompt 2 ''cached text'')]
   \<and> main demoScan cachedWorld ''other.wav'' 2 ''sk-test'' =
       main demoScan cachedWorld ''talk.mp3'' 2 ''sk-test''
   \<and> fst (main demoScan cachedWorld ''talk.mp3'' 2 ''sk-test'') = 0"
proof -
  have f: "files cachedWorld (TranscriptionFile config) = Some ''cached text''"
    by (simp add: cachedWorld_def demoWorld_def)
  have r: "\<not> noRead cachedWorld (TranscriptionFile config)"
    "\<not> readFault cachedWorld (TranscriptionFile config)" "trace cachedWorld = []"
    by (simp_all add: cachedWorld_def demoWorld_def)
  have a: "''talk.mp3'' \<noteq> []" "''sk-test'' \<noteq> []" "''other.wav'' \<noteq> []"
    by simp_all
  note T = cache_hit_skips_transcription [OF f a(1) a(2), of demoScan 2]
  from T have "filter isTranscriptionCall
       (trace (snd (main demoScan cachedWorld ''talk.mp3'' 2 ''sk-test''))) =
       filter isTranscriptionCall (trace cachedWorld)"
    by blast
  with r(3) have 1: "filter isTranscriptionCall
       (trace (snd (main demoScan cachedWorld ''talk.mp3'' 2 ''sk-test''))) = []"
    by simp
  from T have "httpRequests (eventsSince cachedWorld
       (snd (main demoScan cachedWorld ''talk.mp3'' 2 ''sk-test''))) =
       (if noRead cachedWorld (TranscriptionFile config)
           \<or> readFault cachedWorld (TranscriptionFile config)
        then [] else [diarizationRequest ''sk-test'' (diarizePrompt 2 ''cached text'')])"
    by blast
  with r(1,2) have 2: "httpRequests (eventsSince cachedWorld
       (snd (main demoScan cachedWorld ''talk.mp3'' 2 ''sk-test''))) =
       [diarizationRequest ''sk-test'' (diarizePrompt 2 ''cached text'')]"
    by simp
  from T a(3) have 3: "main demoScan cachedWorld ''other.wav'' 2 ''sk-test'' =
       main demoScan cachedWorld ''talk.mp3'' 2 ''sk-test''"
    by blast
  have 4: "fst (main demoScan cachedWorld ''talk.mp3'' 2 ''sk-test'') = 0"
    by (simp add: cachedWorld_def demo_defs run_defs decode_defs)
  from f 1 2 3 4 show ?thesis by simp
qed




text \<open>
  C7. When the cache stage has produced the transcript (loaded or freshly written) and
  diarizeTranscript then fails, the run ends with exit status 1; the files are exactly
  those the cache stage left, so \<^verbatim>\<open>transcription.txt\<close> still holds the transcript; and
  \<^verbatim>\<open>diarized.txt\<close> is as it was before the run, with no write to it among the calls of
  the run.
\<close>

theorem diarization_failure_keeps_cache:
  assumes "a \<noteq> []" and "k \<noteq> []"
    and "fst (cacheStage scan w k a) = Inr t"
    and "fst (diarizeTranscript scan (snd (cacheStage scan w k a)) k t n) = Inl e"
  shows "fst (main scan w a n k) = 1
       \<and> files (snd (main scan w a n k)) = files (snd (cacheStage scan w k a))
       \<and> files (snd (main scan w a n k)) (TranscriptionFile config) = Some t
       \<and> files (snd (main scan w a n k)) (DiarizedFile config) = files w (DiarizedFile config)
       \<and> (\<forall>d. EvWriteFile (DiarizedFile config) d
                \<notin> set (eventsSince w (snd (main scan w a n k))))"
proof -
  obtain w1 where c: "cacheStage scan w k a = (Inr t, w1)"
    using assms(3) by (cases "cacheStage scan w k a") simp
  with assms(4) have d: "fst (diarizeTranscript scan w1 k t n) = Inl e"
    by simp
  have m: "main scan w a n k =
      (1, w1\<lparr>trace := trace w1 @
               [EvHttp (diarizationRequest k (diarizePrompt n t)),
                EvStderr (''Error diarizing transcript: '' @ errorMessage e @ [CHR 0x0A])]\<rparr>)"
    using assms(1,2) c d by (simp add: main_unfold diarizeStage_unfold)
  from cacheStage_frame [OF c] obtain evs where
    f: "files w1 ''transcription.txt'' = Some t"
    and g: "files w1 ''diarized.txt'' = files w ''diarized.txt''"
    and t: "trace w1 = trace w @ evs"
    and nw: "\<forall>e \<in> set evs. \<forall>d. e \<noteq> EvWriteFile ''diarized.txt'' d"
    by auto
  show ?thesis
    using f g nw by (auto simp: m c t eventsSince_def)
qed

theorem diarization_failure_keeps_cache_witness:
  "fst (cacheStage demoScan limitedWorld ''sk-test'' ''talk.mp3'') = Inr ''hello world''
   \<and> fst (diarizeTranscript demoScan
            (snd (cacheStage demoScan limitedWorld ''sk-test'' ''talk.mp3''))
            ''sk-test'' ''hello world'' 2) = Inl (ChatNon200 429 ''rate limited'')
   \<and> fst (main demoScan limitedWorld ''talk.mp3'' 2 ''sk-test'') = 1
   \<and> files (snd (main demoScan limitedWorld ''talk.mp3'' 2 ''sk-test''))
       (TranscriptionFile config) = Some ''hello world''
   \<and> files (snd (main demoScan limitedWorld ''talk.mp3'' 2 ''sk-test''))
       (DiarizedFile config) = None"
proof -
  have a: "''talk.mp3'' \<noteq> []" "''sk-test'' \<noteq> []"
    by simp_all
  have c: "fst (cacheStage demoScan limitedWorld ''sk-test'' ''talk.mp3'') = Inr ''hello world''"
    by (simp add: limitedWorld_def demo_defs run_defs decode_defs)
  have d: "fst (diarizeTranscript demoScan
            (snd (cacheStage demoScan limitedWorld ''sk-test'' ''talk.mp3''))
            ''sk-test'' ''hello world'' 2) = Inl (ChatNon200 429 ''rate limited'')"
    by (simp add: limitedWorld_def demo_defs run_defs decode_defs)
  have n: "files limitedWorld (DiarizedFile config) = None"
    by (simp add: limitedWorld_def demo_defs)
  note T = diarization_failure_keeps_cache [OF a c d]
  from T have 1: "fst (main demoScan limitedWorld ''talk.mp3'' 2 ''sk-test'') = 1"
    by blast
  from T have 2: "files (snd (main demoScan limitedWorld ''talk.mp3'' 2 ''sk-test''))
                    (TranscriptionFile config) = Some ''hello world''"
    by blast
  from T have "files (snd (main demoScan limitedWorld ''talk.mp3'' 2 ''sk-test''))
                 (DiarizedFile config) = files limitedWorld (DiarizedFile config)"
    by blast
  with n have 3: "files (snd (main demoScan limitedWorld ''talk.mp3'' 2 ''sk-test''))
                    (DiarizedFile config) = None"
    by (simp only:)
  from c d 1 2 3 show ?thesis
    by (intro conjI)
qed

text \<open>
  C10. The cache is decided by the presence of the file alone. When the cache file is
  missing and a fresh transcription returns the empty string, the cache stage still
  writes \<^verbatim>\<open>transcription.txt\<close>, with no bytes, and the run goes on to diarize the empty
  transcript. After that run the empty file is there, and it stays there through any
  sequence of later runs, none of which sends a request to the transcription
  endpoint; a later run that can read the file sends the diarization request for the
  empty transcript and no other request.
\<close>

theorem empty_transcript_is_cached:
  assumes "audioPath \<noteq> []" and "apiKey \<noteq> []"
    and "files w (TranscriptionFile config) = None"
    and "fst (transcribeAudio scan (emit w (EvStat (TranscriptionFile config))) apiKey audioPath)
           = Inr []"
    and "\<not> noWrite w (TranscriptionFile config)"
  shows "fst (cacheStage scan w apiKey audioPath) = Inr []
       \<and> files (snd (cacheStage scan w apiKey audioPath)) (TranscriptionFile config) = Some []
       \<and> EvWriteFile (TranscriptionFile config) []
           \<in> set (eventsSince w (snd (cacheStage scan w apiKey audioPath)))
       \<and> main scan w audioPath n apiKey =
           diarizeStage scan (snd (cacheStage scan w apiKey audioPath)) apiKey [] n
       \<and> files (snd (main scan w audioPath n apiKey)) (TranscriptionFile config) = Some []
       \<and> (\<forall>is. files (runs scan (snd (main scan w audioPath n apiKey)) is)
                  (TranscriptionFile config) = Some []
              \<and> filter isTranscriptionCall
                  (trace (runs scan (snd (main scan w audioPath n apiKey)) is)) =
                filter isTranscriptionCall (trace (snd (main scan w audioPath n apiKey))))
       \<and> (\<forall>(w'::world) a' n' k'.
              files w' (TranscriptionFile config) = Some []
              \<and> \<not> noRead w' (TranscriptionFile config)
              \<and> \<not> readFault w' (TranscriptionFile config) \<and> a' \<noteq> [] \<and> k' \<noteq> []
              \<longrightarrow> httpRequests (eventsSince w' (snd (main scan w' a' n' k'))) =
                    [diarizationRequest k' (diarizePrompt n' [])])"
proof -
  let ?c = "''transcription.txt''"
  let ?w0 = "emit w (EvStat ?c)"
  obtain evs where evs: "snd (transcribeAudio scan ?w0 apiKey audioPath) =
      ?w0\<lparr>trace := trace ?w0 @ evs\<rparr>"
    using transcribeAudio_frame [of scan ?w0 apiKey audioPath] by blast
  obtain r w2 where tr: "transcribeAudio scan ?w0 apiKey audioPath = (r, w2)"
    by (cases "transcribeAudio scan ?w0 apiKey audioPath")
  with assms(4) evs have r: "r = Inr []"
    and w2: "w2 = w\<lparr>trace := trace w @ [EvStat ?c] @ evs\<rparr>"
    by (simp_all add: emit_def)
  let ?w1 = "w\<lparr>files := (files w)(?c \<mapsto> []),
               trace := trace w @ [EvStat ?c] @ evs @
                 [EvWriteFile ?c [],
                  EvStdout (''Transcription saved to transcription.txt'' @ [CHR 0x0A])]\<rparr>"
  have c: "cacheStage scan w apiKey audioPath = (Inr [], ?w1)"
    using assms(3,5) tr
    by (simp add: cacheStage_def osStat_def osWriteFile_def r w2 emit_def)
  have m: "main scan w audioPath n apiKey = diarizeStage scan ?w1 apiKey [] n"
    using assms(1,2) by (simp add: main_unfold c)
  have b: "files (snd (main scan w audioPath n apiKey)) ?c = Some []"
    using diarizeStage_effects [of scan ?w1 apiKey "[]" n] by (auto simp: m)
  have d: "\<And>(w'::world) a' n' k'. files w' ?c = Some [] \<Longrightarrow> \<not> noRead w' ?c
              \<Longrightarrow> \<not> readFault w' ?c \<Longrightarrow> a' \<noteq> [] \<Longrightarrow> k' \<noteq> []
              \<Longrightarrow> httpRequests (eventsSince w' (snd (main scan w' a' n' k'))) =
                    [diarizationRequest k' (diarizePrompt n' [])]"
  proof -
    fix w' :: world and a' :: string and n' :: int and k' :: string
    assume h: "files w' ?c = Some []" "\<not> noRead w' ?c" "\<not> readFault w' ?c"
      "a' \<noteq> []" "k' \<noteq> []"
    let ?v = "w'\<lparr>trace := trace w' @ [EvStat ?c, EvReadFile ?c,
               EvStdout (''Loaded transcription from transcription.txt'' @ [CHR 0x0A])]\<rparr>"
    obtain es where
      t: "trace (snd (diarizeStage scan ?v k' [] n')) =
            trace ?v @ EvHttp (diarizationRequest k' (diarizePrompt n' [])) # es"
      and hh: "httpRequests es = []"
      using diarizeStage_effects [of scan ?v k' "[]" n'] by blast
    show "httpRequests (eventsSince w' (snd (main scan w' a' n' k'))) =
            [diarizationRequest k' (diarizePrompt n' [])]"
      using h t hh by (simp add: main_cache_hit eventsSince_def)
  qed
  show ?thesis
    using b d runs_keep_cache [OF b] by (simp add: c m eventsSince_def)
qed

theorem empty_transcript_is_cached_witness:
  "files (answering (Response 200 bodyEmptyText) (Response 200 bodySpeaker))
     (TranscriptionFile config) = None
   \<and> fst (transcribeAudio demoScan
       (emit (answering (Response 200 bodyEmptyText) (Response 200 bodySpeaker))
          (EvStat (TranscriptionFile config))) ''sk-test'' ''talk.mp3'') = Inr []
   \<and> files (snd (main demoScan
       (answering (Response 200 bodyEmptyText) (Response 200 bodySpeaker))
       ''talk.mp3'' 2 ''sk-test'')) (TranscriptionFile config) = Some []
   \<and> files (runs demoScan (snd (main demoScan
       (answering (Response 200 bodyEmptyText) (Response 200 bodySpeaker))
       ''talk.mp3'' 2 ''sk-test'')) [again, again]) (TranscriptionFile config) = Some []
   \<and> length (filter isTranscriptionCall (trace (runs demoScan (snd (main demoScan
       (answering (Response 200 bodyEmptyText) (Response 200 bodySpeaker))
       ''talk.mp3'' 2 ''sk-test'')) [again, again]))) = 1"
proof -
  let ?w = "answering (Response 200 bodyEmptyText) (Response 200 bodySpeaker)"
  have a: "''talk.mp3'' \<noteq> []" "''sk-test'' \<noteq> []"
    by simp_all
  have f: "files ?w (TranscriptionFile config) = None"
    by (simp add: demo_defs)
  have t: "fst (transcribeAudio demoScan (emit ?w (EvStat (TranscriptionFile config)))
             ''sk-test'' ''talk.mp3'') = Inr []"
    by (simp add: demo_defs run_defs decode_defs)
  have nw: "\<not> noWrite ?w (TranscriptionFile config)"
    by (simp add: demo_defs)
  note T = empty_transcript_is_cached [OF a f t nw, of 2]
  have l: "length (filter isTranscriptionCall
             (trace (snd (main demoScan ?w ''talk.mp3'' 2 ''sk-test'')))) = 1"
    by (simp add: demo_defs run_defs decode_defs)
  from T have 1: "files (snd (main demoScan ?w ''talk.mp3'' 2 ''sk-test''))
                    (TranscriptionFile config) = Some []"
    by blast
  from T have 2: "files (runs demoScan (snd (main demoScan ?w ''talk.mp3'' 2 ''sk-test''))
                    [again, again]) (TranscriptionFile config) = Some []"
    by blast
  from T have "filter isTranscriptionCall (trace (runs demoScan
                    (snd (main demoScan ?w ''talk.mp3'' 2 ''sk-test'')) [again, again])) =
               filter isTranscriptionCall
                 (trace (snd (main demoScan ?w ''talk.mp3'' 2 ''sk-test'')))"
    by blast
  with l have 3: "length (filter isTranscriptionCall (trace (runs demoScan
                    (snd (main demoScan ?w ''talk.mp3'' 2 ''sk-test'')) [again, again]))) = 1"
    by simp
  from f t 1 2 3 show ?thesis by simp
qed

end
